theory Spec2Isabelle
  imports Complex_Main "HOL-Library.Word"
begin

section \<open>JavaScript values used by \<open>checks.ts\<close>\<close>

text \<open>
  A JavaScript number is an IEEE double. Only its order, its truthiness and strict
  equality are used by the validators, so a number is modelled as a real, one of the two
  infinities or \<open>NaN\<close>; the doubles are a subset of these values (\<open>-0\<close> is \<open>0\<close>:
  the two are equal, compare alike and are both falsy).
\<close>

datatype number = NaN | NegInfinity | Finite real | Infinity

text \<open>The relational operators \<open>a < b\<close> and \<open>a > b\<close>: false whenever an operand is \<open>NaN\<close>.\<close>

fun js_lt :: "number \<Rightarrow> number \<Rightarrow> bool" where
  "js_lt NaN b = False"
| "js_lt a NaN = False"
| "js_lt (Finite x) (Finite y) = (x < y)"
| "js_lt a NegInfinity = False"
| "js_lt NegInfinity b = True"
| "js_lt Infinity b = False"
| "js_lt (Finite x) Infinity = True"

definition js_gt :: "number \<Rightarrow> number \<Rightarrow> bool" where
  "js_gt a b = js_lt b a"

text \<open>\<open>a <= b\<close>, used to say that a range is not degenerate: false on \<open>NaN\<close>, else not \<open>b < a\<close>.\<close>

definition js_le :: "number \<Rightarrow> number \<Rightarrow> bool" where
  "js_le a b = (a \<noteq> NaN \<and> b \<noteq> NaN \<and> \<not> js_lt b a)"

text \<open>Strict equality \<open>a === b\<close> of two numbers: \<open>NaN\<close> equals nothing.\<close>

definition js_strict_equals :: "number \<Rightarrow> number \<Rightarrow> bool" where
  "js_strict_equals a b = (a \<noteq> NaN \<and> b \<noteq> NaN \<and> a = b)"

text \<open>
  A value that may be absent: the optional parameter \<open>value?: number\<close>, the result of
  \<open>author?.length\<close> and of \<open>hash[0]\<close>, and an argument a caller left out.
\<close>

datatype 'a maybe = Undefined | Null | Defined 'a

text \<open>\<open>ToBoolean\<close> on a number that may be absent: the left operand of \<open>value && ...\<close>.\<close>

fun truthy :: "number maybe \<Rightarrow> bool" where
  "truthy Undefined = False"
| "truthy Null = False"
| "truthy (Defined NaN) = False"
| "truthy (Defined (Finite x)) = (x \<noteq> 0)"
| "truthy (Defined NegInfinity) = True"
| "truthy (Defined Infinity) = True"

text \<open>\<open>ToNumber\<close>, applied by the relational operators to an operand.\<close>

fun to_number :: "number maybe \<Rightarrow> number" where
  "to_number Undefined = NaN"
| "to_number Null = Finite 0"
| "to_number (Defined n) = n"

text \<open>A string is its sequence of UTF-16 code units; \<open>length\<close> counts them.\<close>

type_synonym jsstring = "16 word list"

definition js_length :: "jsstring \<Rightarrow> number" where
  "js_length s = Finite (real (length s))"

text \<open>\<open>s?.length\<close>: \<open>undefined\<close> when \<open>s\<close> is \<open>undefined\<close> or \<open>null\<close>.\<close>

fun optional_length :: "jsstring maybe \<Rightarrow> number maybe" where
  "optional_length Undefined = Undefined"
| "optional_length Null = Undefined"
| "optional_length (Defined s) = Defined (js_length s)"

text \<open>\<open>s[0]\<close>: the string of the first code unit, \<open>undefined\<close> for the empty string.\<close>

fun first_char :: "jsstring \<Rightarrow> jsstring maybe" where
  "first_char [] = Undefined"
| "first_char (c # cs) = Defined [c]"

section \<open>Configuration, logger and errors\<close>

text \<open>The interface \<open>RangeObj\<close>; its fields \<open>MIN\<close> and \<open>MAX\<close> are primed here.\<close>

record RangeObj =
  MIN' :: number
  MAX' :: number

text \<open>
  Modelled from the spec: the imported \<open>defs.json\<close> is not among the sources. The record
  has the six keys that \<open>checks.ts\<close> reads, with the types at which the code uses them
  (a number compared to \<open>hash.length\<close>, two strings compared to \<open>hash[0]\<close>, three
  \<open>RangeObj\<close>). Their values are left open: every result below holds for any contents,
  or states what it asks of them.
\<close>

record defs_json =
  HASH_LENGTH :: number
  HASH_P2P_PREFIX :: jsstring
  HASH_SERVER_PREFIX :: jsstring
  AUTHOR_CHAR_LENGTH :: RangeObj
  DESCRIPTION_CHAR_LENGTH :: RangeObj
  FILE_SIZE :: RangeObj

text \<open>
  What the exported functions can reach besides their arguments: the module object
  \<open>defs\<close> and the log of \<open>__fn.logger\<close>, the messages written so far, oldest first.
\<close>

record world =
  defs :: defs_json
  logger :: "string list"

definition logger_log :: "string \<Rightarrow> world \<Rightarrow> world" where
  "logger_log msg w = w\<lparr>logger := logger w @ [msg]\<rparr>"

text \<open>The messages a call wrote: what the log holds after it beyond what it held before.\<close>

definition emitted :: "world \<Rightarrow> world \<Rightarrow> string list" where
  "emitted before after = drop (length (logger before)) (logger after)"

text \<open>\<open>throw Error(msg)\<close>: the three failures differ by their message only.\<close>

datatype error = Error string

definition InvalidHashFormat :: error where
  "InvalidHashFormat = Error ''Invalid gistit hash format''"

definition InvalidParamsLength :: error where
  "InvalidParamsLength = Error ''Invalid author, description or secret character length''"

definition FileSizeNotAllowed :: error where
  "FileSizeNotAllowed = Error ''File size not allowed''"

section \<open>The validators\<close>

text \<open>
  \<^verbatim>\<open>if (value && value > obj.MAX && value < obj.MIN) return false; return true;\<close>
\<close>

definition paramValueInRange :: "RangeObj \<Rightarrow> number maybe \<Rightarrow> bool" where
  "paramValueInRange obj v =
     (if truthy v \<and> js_gt (to_number v) (MAX' obj) \<and> js_lt (to_number v) (MIN' obj)
      then False
      else True)"

text \<open>
  \<open>checkHash\<close>: the length test, then the \<open>switch\<close> on \<open>hash[0]\<close>, whose cases are
  tried in order (\<open>HASH_P2P_PREFIX\<close> first); the \<open>else\<close> branch throws.
\<close>

definition checkHash :: "jsstring \<Rightarrow> world \<Rightarrow> (error + unit) \<times> world" where
  "checkHash hash w =
     (if js_strict_equals (js_length hash) (HASH_LENGTH (defs w)) then
        (if first_char hash = Defined (HASH_P2P_PREFIX (defs w)) then
           (Inr (), logger_log ''p2p'' w)
         else if first_char hash = Defined (HASH_SERVER_PREFIX (defs w)) then
           (Inr (), logger_log ''server'' w)
         else (Inr (), w))
      else (Inl (Error ''Invalid gistit hash format''), w))"

definition checkParamsCharLength ::
    "jsstring maybe \<Rightarrow> jsstring maybe \<Rightarrow> world \<Rightarrow> (error + unit) \<times> world" where
  "checkParamsCharLength author description w =
     (if paramValueInRange (AUTHOR_CHAR_LENGTH (defs w)) (optional_length author) \<and>
         paramValueInRange (DESCRIPTION_CHAR_LENGTH (defs w)) (optional_length description)
      then (Inr (), w)
      else (Inl (Error ''Invalid author, description or secret character length''), w))"

text \<open>\<open>checkFileSize(size)\<close>; the parameter is written \<open>sz\<close>.\<close>

definition checkFileSize :: "number \<Rightarrow> world \<Rightarrow> (error + unit) \<times> world" where
  "checkFileSize sz w =
     (if paramValueInRange (FILE_SIZE (defs w)) (Defined sz) then (Inr (), w)
      else (Inl (Error ''File size not allowed''), w))"

section \<open>Concrete configurations\<close>

text \<open>
  Two configurations on which the validators are run below: one with ordinary ranges,
  hashes of four code units and the prefixes \<open>@\<close> and \<open>#\<close>, and one whose
  \<open>FILE_SIZE\<close> range is degenerate (\<open>MIN > MAX\<close>).
\<close>

definition example_defs :: defs_json where
  "example_defs =
     \<lparr>HASH_LENGTH = Finite 4, HASH_P2P_PREFIX = [0x40], HASH_SERVER_PREFIX = [0x23],
      AUTHOR_CHAR_LENGTH = \<lparr>MIN' = Finite 3, MAX' = Finite 50\<rparr>,
      DESCRIPTION_CHAR_LENGTH = \<lparr>MIN' = Finite 10, MAX' = Finite 100\<rparr>,
      FILE_SIZE = \<lparr>MIN' = Finite 20, MAX' = Finite 50000\<rparr>\<rparr>"

definition degenerate_defs :: defs_json where
  "degenerate_defs = example_defs\<lparr>FILE_SIZE := \<lparr>MIN' = Finite 10, MAX' = Finite 1\<rparr>\<rparr>"

section \<open>Facts about the order of numbers\<close>

lemma js_lt_trans: "js_lt a b \<Longrightarrow> js_lt b c \<Longrightarrow> js_lt a c"
  by (cases a; cases b; cases c) simp_all

lemma no_value_in_normal_gap:
  assumes "js_le lo hi"
  shows "\<not> (js_gt v hi \<and> js_lt v lo)"
proof
  assume "js_gt v hi \<and> js_lt v lo"
  then have "js_lt hi v" and "js_lt v lo"
    by (simp_all add: js_gt_def)
  then have "js_lt hi lo"
    by (rule js_lt_trans)
  with assms show False
    by (simp add: js_le_def)
qed

text \<open>The falsy numbers are \<open>NaN\<close> and \<open>0\<close>.\<close>

lemma truthy_Defined_iff: "truthy (Defined v) = (v \<noteq> NaN \<and> v \<noteq> Finite 0)"
  by (cases v) simp_all

section \<open>The range policy\<close>

text \<open>
  C1. \<open>paramValueInRange range value\<close> is false exactly when the value is present and
  truthy, greater than \<open>range.MAX\<close> and less than \<open>range.MIN\<close>, all at once. In every
  other case it is true; so it is for \<open>undefined\<close> and for \<open>null\<close>.
\<close>

theorem paramValueInRange_false_iff:
  "(paramValueInRange rng v = False) =
     (\<exists>n. v = Defined n \<and> truthy (Defined n) \<and> js_gt n (MAX' rng) \<and> js_lt n (MIN' rng))
   \<and> (paramValueInRange rng v = True) =
     (\<not> (\<exists>n. v = Defined n \<and> truthy (Defined n) \<and> js_gt n (MAX' rng) \<and> js_lt n (MIN' rng)))
   \<and> paramValueInRange rng Undefined = True
   \<and> paramValueInRange rng Null = True"
  by (cases v) (simp_all add: paramValueInRange_def)

text \<open>
  C2. On a range with \<open>MIN \<le> MAX\<close> the function answers true for every value, present or
  absent, however far outside the range: no number is above \<open>MAX\<close> and below \<open>MIN\<close>.
  The instance \<open>paramValueInRange({MIN:1,MAX:10}, 1000)\<close> follows it.
\<close>

theorem paramValueInRange_normal_range:
  assumes "js_le (MIN' rng) (MAX' rng)"
  shows "paramValueInRange rng v = True"
  using no_value_in_normal_gap [OF assms, of "to_number v"]
  by (simp add: paramValueInRange_def)

theorem paramValueInRange_normal_range_witness:
  "js_le (MIN' \<lparr>MIN' = Finite 1, MAX' = Finite 10\<rparr>) (MAX' \<lparr>MIN' = Finite 1, MAX' = Finite 10\<rparr>)
   \<and> paramValueInRange \<lparr>MIN' = Finite 1, MAX' = Finite 10\<rparr> (Defined (Finite 1000)) = True"
proof -
  have le: "js_le (MIN' \<lparr>MIN' = Finite 1, MAX' = Finite 10\<rparr>) (MAX' \<lparr>MIN' = Finite 1, MAX' = Finite 10\<rparr>)"
    by (simp add: js_le_def)
  from le paramValueInRange_normal_range [OF le, of "Defined (Finite 1000)"]
  show ?thesis by simp
qed

text \<open>
  C10. The guard tests the truthiness of the value, so \<open>0\<close> is treated like an absent
  value: \<open>paramValueInRange range 0\<close> is true for every range. This holds on a degenerate
  range as well, where another value of the gap is rejected: with \<open>{MIN:10, MAX:-10}\<close>
  the value \<open>5\<close> is refused and \<open>0\<close> is accepted.
\<close>

theorem paramValueInRange_zero:
  "paramValueInRange rng (Defined (Finite 0)) = True
   \<and> truthy (Defined (Finite 0)) = truthy Undefined
   \<and> paramValueInRange \<lparr>MIN' = Finite 10, MAX' = Finite (- 10)\<rparr> (Defined (Finite 5)) = False
   \<and> paramValueInRange \<lparr>MIN' = Finite 10, MAX' = Finite (- 10)\<rparr> (Defined (Finite 0)) = True"
  by (simp add: paramValueInRange_def js_gt_def)

text \<open>
  C9. The rejecting branch can be reached on a degenerate range: a truthy value \<open>v\<close> with
  \<open>range.MAX < v < range.MIN\<close> makes \<open>paramValueInRange range v\<close> false, and
  \<open>checkFileSize v\<close> throws when \<open>FILE_SIZE\<close> is such a range. The range
  \<open>{MIN:10, MAX:1}\<close> with \<open>v = 5\<close> is one.
\<close>

theorem paramValueInRange_degenerate_rejects:
  assumes "truthy (Defined v)"
    and "js_gt v (MAX' rng)"
    and "js_lt v (MIN' rng)"
  shows "paramValueInRange rng (Defined v) = False
    \<and> fst (checkFileSize v (w\<lparr>defs := (defs w)\<lparr>FILE_SIZE := rng\<rparr>\<rparr>)) = Inl FileSizeNotAllowed"
  using assms by (simp add: paramValueInRange_def checkFileSize_def FileSizeNotAllowed_def)

theorem paramValueInRange_degenerate_rejects_witness:
  "js_lt (MAX' (FILE_SIZE degenerate_defs)) (MIN' (FILE_SIZE degenerate_defs))
   \<and> truthy (Defined (Finite 5))
   \<and> js_gt (Finite 5) (MAX' (FILE_SIZE degenerate_defs))
   \<and> js_lt (Finite 5) (MIN' (FILE_SIZE degenerate_defs))
   \<and> paramValueInRange \<lparr>MIN' = Finite 10, MAX' = Finite 1\<rparr> (Defined (Finite 5)) = False
   \<and> fst (checkFileSize (Finite 5) \<lparr>defs = degenerate_defs, logger = []\<rparr>)
       = Inl (Error ''File size not allowed'')"
proof -
  let ?r = "FILE_SIZE degenerate_defs"
  have t: "truthy (Defined (Finite 5))"
    by simp
  have g: "js_gt (Finite 5) (MAX' ?r)"
    by (simp add: js_gt_def degenerate_defs_def)
  have l: "js_lt (Finite 5) (MIN' ?r)"
    by (simp add: degenerate_defs_def)
  have "paramValueInRange ?r (Defined (Finite 5)) = False
    \<and> fst (checkFileSize (Finite 5)
          (\<lparr>defs = example_defs, logger = []\<rparr>
             \<lparr>defs := (defs \<lparr>defs = example_defs, logger = []\<rparr>)\<lparr>FILE_SIZE := ?r\<rparr>\<rparr>))
        = Inl FileSizeNotAllowed"
    by (rule paramValueInRange_degenerate_rejects [OF t g l])
  with t g l show ?thesis
    by (simp add: degenerate_defs_def FileSizeNotAllowed_def)
qed

section \<open>checkHash\<close>

lemma js_strict_equals_length:
  "js_strict_equals (js_length h) n = (js_length h = n)"
  by (auto simp: js_strict_equals_def js_length_def)

lemma emitted_same [simp]: "emitted w w = []"
  by (simp add: emitted_def)

lemma emitted_logger_log [simp]: "emitted w (logger_log msg w) = [msg]"
  by (simp add: emitted_def logger_log_def)

lemma defs_logger_log [simp]: "defs (logger_log msg w) = defs w"
  by (simp add: logger_log_def)

lemma logger_logger_log [simp]: "logger (logger_log msg w) = logger w @ [msg]"
  by (simp add: logger_log_def)

text \<open>
  C3. \<open>checkHash h\<close> throws the error \<open>Invalid gistit hash format\<close> exactly when the
  length of \<open>h\<close> is not \<open>HASH_LENGTH\<close>, and returns without an error exactly when it is.
\<close>

theorem checkHash_throws_iff:
  "(fst (checkHash h w) = Inl InvalidHashFormat) = (js_length h \<noteq> HASH_LENGTH (defs w))
   \<and> (fst (checkHash h w) = Inr ()) = (js_length h = HASH_LENGTH (defs w))"
  by (simp add: checkHash_def js_strict_equals_length InvalidHashFormat_def)

text \<open>
  C4. For a hash \<open>h\<close> of length \<open>HASH_LENGTH\<close>, \<open>checkHash h\<close> raises no error and appends
  to the log exactly: the one message \<open>p2p\<close> when the first character of \<open>h\<close> is
  \<open>HASH_P2P_PREFIX\<close>; else the one message \<open>server\<close> when it is
  \<open>HASH_SERVER_PREFIX\<close>; else nothing. The \<open>switch\<close> tries the p2p case first, so the
  server case is that of a first character that is not the p2p prefix as well; the two
  cases are the two of the statement whenever the two prefixes differ.
\<close>

theorem checkHash_classifies:
  assumes "js_length h = HASH_LENGTH (defs w)"
  shows "fst (checkHash h w) = Inr ()
    \<and> emitted w (snd (checkHash h w)) =
        (if first_char h = Defined (HASH_P2P_PREFIX (defs w)) then [''p2p'']
         else if first_char h = Defined (HASH_SERVER_PREFIX (defs w)) then [''server'']
         else [])
    \<and> logger (snd (checkHash h w)) = logger w @ emitted w (snd (checkHash h w))"
proof -
  have "js_strict_equals (js_length h) (HASH_LENGTH (defs w))"
    unfolding js_strict_equals_length by (rule assms)
  then show ?thesis
    by (simp add: checkHash_def)
qed

theorem checkHash_classifies_witness:
  "js_length [0x40, 0x61, 0x62, 0x63] = HASH_LENGTH example_defs
   \<and> checkHash [0x40, 0x61, 0x62, 0x63] \<lparr>defs = example_defs, logger = [''earlier'']\<rparr>
       = (Inr (), \<lparr>defs = example_defs, logger = [''earlier'', ''p2p'']\<rparr>)
   \<and> checkHash [0x23, 0x61, 0x62, 0x63] \<lparr>defs = example_defs, logger = [''earlier'']\<rparr>
       = (Inr (), \<lparr>defs = example_defs, logger = [''earlier'', ''server'']\<rparr>)
   \<and> checkHash [0x61, 0x62, 0x63, 0x64] \<lparr>defs = example_defs, logger = [''earlier'']\<rparr>
       = (Inr (), \<lparr>defs = example_defs, logger = [''earlier'']\<rparr>)"
proof -
  let ?w = "\<lparr>defs = example_defs, logger = [''earlier'']\<rparr>"
  have len: "js_length h = HASH_LENGTH (defs ?w)" if "length h = 4" for h
    using that by (simp add: js_length_def example_defs_def)
  have pre: "HASH_P2P_PREFIX example_defs = [0x40]" "HASH_SERVER_PREFIX example_defs = [0x23]"
    by (simp_all add: example_defs_def)
  have same_defs: "defs (snd (checkHash h ?w)) = example_defs" for h
    by (simp add: checkHash_def)
  have whole: "x = (fst x, \<lparr>defs = defs (snd x), logger = logger (snd x)\<rparr>)"
    for x :: "(error + unit) \<times> world"
    by (cases x) simp
  have p2p: "checkHash [0x40, 0x61, 0x62, 0x63] ?w = (Inr (), \<lparr>defs = example_defs, logger = [''earlier'', ''p2p'']\<rparr>)"
    using checkHash_classifies [OF len, of "[0x40, 0x61, 0x62, 0x63]"]
    by (subst whole) (simp add: pre same_defs)
  have server: "checkHash [0x23, 0x61, 0x62, 0x63] ?w = (Inr (), \<lparr>defs = example_defs, logger = [''earlier'', ''server'']\<rparr>)"
    using checkHash_classifies [OF len, of "[0x23, 0x61, 0x62, 0x63]"]
    by (subst whole) (simp add: pre same_defs)
  have other: "checkHash [0x61, 0x62, 0x63, 0x64] ?w = (Inr (), \<lparr>defs = example_defs, logger = [''earlier'']\<rparr>)"
    using checkHash_classifies [OF len, of "[0x61, 0x62, 0x63, 0x64]"]
    by (subst whole) (simp add: pre same_defs)
  from p2p server other len [of "[0x40, 0x61, 0x62, 0x63]"] show ?thesis
    by simp
qed

section \<open>checkFileSize and checkParamsCharLength\<close>

text \<open>
  C5. Under the range policy above \<open>checkFileSize size\<close> never throws, whatever the
  number \<open>size\<close> is (finite or not): \<open>FILE_SIZE\<close> is read from the configuration, and
  the statement holds for every configuration whose \<open>FILE_SIZE\<close> range has
  \<open>MIN \<le> MAX\<close>.
\<close>

theorem checkFileSize_never_throws:
  assumes "js_le (MIN' (FILE_SIZE (defs w))) (MAX' (FILE_SIZE (defs w)))"
  shows "checkFileSize sz w = (Inr (), w)"
  using no_value_in_normal_gap [OF assms, of sz]
  by (simp add: checkFileSize_def paramValueInRange_def)

theorem checkFileSize_never_throws_witness:
  "js_le (MIN' (FILE_SIZE example_defs)) (MAX' (FILE_SIZE example_defs))
   \<and> checkFileSize (Finite 1000000) \<lparr>defs = example_defs, logger = []\<rparr>
       = (Inr (), \<lparr>defs = example_defs, logger = []\<rparr>)
   \<and> checkFileSize (Finite (- 3)) \<lparr>defs = example_defs, logger = []\<rparr>
       = (Inr (), \<lparr>defs = example_defs, logger = []\<rparr>)"
proof -
  let ?w = "\<lparr>defs = example_defs, logger = []\<rparr>"
  have le: "js_le (MIN' (FILE_SIZE (defs ?w))) (MAX' (FILE_SIZE (defs ?w)))"
    by (simp add: example_defs_def js_le_def)
  from le checkFileSize_never_throws [OF le, of "Finite 1000000"]
    checkFileSize_never_throws [OF le, of "Finite (- 3)"]
  show ?thesis by simp
qed

text \<open>
  C6. \<open>checkParamsCharLength(undefined, undefined)\<close> does not throw, in any
  configuration: the length of an absent author or description is \<open>undefined\<close>, which
  \<open>paramValueInRange\<close> takes as in range.
\<close>

theorem checkParamsCharLength_undefined:
  "checkParamsCharLength Undefined Undefined w = (Inr (), w)
   \<and> paramValueInRange (AUTHOR_CHAR_LENGTH (defs w)) (optional_length Undefined) = True
   \<and> paramValueInRange (DESCRIPTION_CHAR_LENGTH (defs w)) (optional_length Undefined) = True"
  by (simp add: checkParamsCharLength_def paramValueInRange_def)

text \<open>
  C7. \<open>checkParamsCharLength author description\<close> throws the error \<open>Invalid author,
  description or secret character length\<close> exactly when it is not the case that the
  length of \<open>author\<close> satisfies \<open>paramValueInRange\<close> for \<open>AUTHOR_CHAR_LENGTH\<close> and the
  length of \<open>description\<close> satisfies it for \<open>DESCRIPTION_CHAR_LENGTH\<close>; when both do,
  it returns without an error.
\<close>

theorem checkParamsCharLength_throws_iff:
  "(fst (checkParamsCharLength author description w) = Inl InvalidParamsLength) =
     (\<not> (paramValueInRange (AUTHOR_CHAR_LENGTH (defs w)) (optional_length author) \<and>
         paramValueInRange (DESCRIPTION_CHAR_LENGTH (defs w)) (optional_length description)))
   \<and> (fst (checkParamsCharLength author description w) = Inr ()) =
     (paramValueInRange (AUTHOR_CHAR_LENGTH (defs w)) (optional_length author) \<and>
      paramValueInRange (DESCRIPTION_CHAR_LENGTH (defs w)) (optional_length description))"
  by (simp add: checkParamsCharLength_def InvalidParamsLength_def)

section \<open>The configuration is only read\<close>

text \<open>
  C8. No validator changes the configuration, and what a call does is a function of the
  configuration and of its arguments alone. For the three exported functions: the
  \<open>defs\<close> of the world after the call are those before it, and in two worlds with the
  same \<open>defs\<close> (whatever their logs hold) a call on the same arguments gives the same
  result, success or the same error, and writes the same messages; only \<open>checkHash\<close>
  writes any. \<open>paramValueInRange\<close> reads nothing but its two parameters in the source, so
  its model has no world to change or to depend on, and its boolean is a function of the
  range and the value.
\<close>

theorem validators_read_only:
  assumes "defs w = defs w'"
  shows "defs (snd (checkHash h w)) = defs w
    \<and> defs (snd (checkParamsCharLength author description w)) = defs w
    \<and> defs (snd (checkFileSize sz w)) = defs w
    \<and> fst (checkHash h w) = fst (checkHash h w')
    \<and> emitted w (snd (checkHash h w)) = emitted w' (snd (checkHash h w'))
    \<and> fst (checkParamsCharLength author description w)
        = fst (checkParamsCharLength author description w')
    \<and> emitted w (snd (checkParamsCharLength author description w)) = []
    \<and> emitted w' (snd (checkParamsCharLength author description w')) = []
    \<and> fst (checkFileSize sz w) = fst (checkFileSize sz w')
    \<and> emitted w (snd (checkFileSize sz w)) = []
    \<and> emitted w' (snd (checkFileSize sz w')) = []"
  using assms by (simp add: checkHash_def checkParamsCharLength_def checkFileSize_def)

theorem validators_read_only_witness:
  "defs \<lparr>defs = example_defs, logger = []\<rparr> = defs \<lparr>defs = example_defs, logger = [''a'', ''b'']\<rparr>
   \<and> defs (snd (checkHash [0x40, 0x61, 0x62, 0x63] \<lparr>defs = example_defs, logger = []\<rparr>))
       = example_defs
   \<and> fst (checkHash [0x40, 0x61, 0x62, 0x63] \<lparr>defs = example_defs, logger = []\<rparr>)
       = fst (checkHash [0x40, 0x61, 0x62, 0x63] \<lparr>defs = example_defs, logger = [''a'', ''b'']\<rparr>)
   \<and> emitted \<lparr>defs = example_defs, logger = [''a'', ''b'']\<rparr>
        (snd (checkHash [0x40, 0x61, 0x62, 0x63] \<lparr>defs = example_defs, logger = [''a'', ''b'']\<rparr>))
       = [''p2p'']"
proof -
  let ?w = "\<lparr>defs = example_defs, logger = []\<rparr>"
  let ?w' = "\<lparr>defs = example_defs, logger = [''a'', ''b'']\<rparr>"
  let ?h = "[0x40, 0x61, 0x62, 0x63] :: jsstring"
  have same: "defs ?w = defs ?w'"
    by simp
  have here: "emitted ?w (snd (checkHash ?h ?w)) = [''p2p'']"
    by (simp add: checkHash_def js_strict_equals_def js_length_def example_defs_def)
  from same here validators_read_only [OF same, of ?h]
  show ?thesis by simp
qed

end
